theory Spec2Isabelle
  imports Main
begin

section \<open>Messages and conversation state\<close>

text \<open>
  The message classes are imported by \<^verbatim>\<open>graph.py\<close> (line 9) from the
  \<^verbatim>\<open>langchain_core\<close> library. A tool call carries the name of the tool, its argument
  payload and the call identifier that the result is correlated with.
\<close>

record tool_call =
  tc_name :: string
  tc_args :: string
  tc_id :: string

text \<open>
  An assistant message. \<^verbatim>\<open>graph.py\<close> reads \<^verbatim>\<open>id\<close> and \<^verbatim>\<open>tool_calls\<close> and sets
  \<^verbatim>\<open>id\<close> and \<^verbatim>\<open>content\<close>; the remaining fields are the further attributes of the
  library class, which a model backend fills in on a response and which the constructor
  leaves at their defaults when they are not passed.
\<close>

record ai_message =
  ai_content :: string
  ai_id :: "string option"
  ai_tool_calls :: "tool_call list"
  ai_name :: "string option"
  ai_additional_kwargs :: "(string \<times> string) list"
  ai_response_metadata :: "(string \<times> string) list"
  ai_usage_metadata :: "(string \<times> nat) list option"

datatype tool_status = Success | Error

record tool_message =
  tm_content :: string
  tm_tool_call_id :: string
  tm_name :: string
  tm_status :: tool_status

datatype message =
    SystemMessage string
  | HumanMessage string
  | AIMessage ai_message
  | ToolMessage tool_message

text \<open>\<^verbatim>\<open>isinstance(m, AIMessage)\<close> and \<^verbatim>\<open>type(m).__name__\<close>.\<close>

fun isinstance_AIMessage :: "message \<Rightarrow> bool" where
  "isinstance_AIMessage (AIMessage _) = True"
| "isinstance_AIMessage _ = False"

fun isinstance_SystemMessage :: "message \<Rightarrow> bool" where
  "isinstance_SystemMessage (SystemMessage _) = True"
| "isinstance_SystemMessage _ = False"

fun type_name :: "message \<Rightarrow> string" where
  "type_name (SystemMessage _) = ''SystemMessage''"
| "type_name (HumanMessage _) = ''HumanMessage''"
| "type_name (AIMessage _) = ''AIMessage''"
| "type_name (ToolMessage _) = ''ToolMessage''"

text \<open>
  \<^verbatim>\<open>AIMessage(id=i, content=c)\<close>, the constructor call of lines 59 to 62: every
  attribute that is not passed takes the default of the class.
\<close>

definition new_AIMessage :: "string option \<Rightarrow> string \<Rightarrow> ai_message" where
  "new_AIMessage i c =
     \<lparr>ai_content = c, ai_id = i, ai_tool_calls = [], ai_name = None,
      ai_additional_kwargs = [], ai_response_metadata = [], ai_usage_metadata = None\<rparr>"

text \<open>
  The state the two nodes and the routing function receive: \<^verbatim>\<open>state.messages\<close> and
  \<^verbatim>\<open>state.is_last_step\<close> are the two attributes \<^verbatim>\<open>graph.py\<close> reads.
\<close>

record state =
  messages :: "message list"
  is_last_step :: bool

section \<open>Errors\<close>

text \<open>
  Every exception is a value. \<open>ValueError\<close> is the one \<^verbatim>\<open>route_model_output\<close>
  raises itself (lines 116 to 118), \<open>IndexError\<close> is what the index \<^verbatim>\<open>[-1]\<close> raises
  on an empty sequence (line 114), and \<open>Raised\<close> is an exception that comes out of a
  collaborator (the tool registry, the model backend, the prompt formatter) and that no
  function of \<^verbatim>\<open>graph.py\<close> catches.
\<close>

datatype error = ValueError string | IndexError | Raised string

text \<open>\<^verbatim>\<open>xs[-1]\<close>\<close>

definition index_last :: "'a list \<Rightarrow> error + 'a" where
  "index_last xs = (if xs = [] then Inl IndexError else Inr (last xs))"

section \<open>The routing decision\<close>

text \<open>The two values of \<^verbatim>\<open>Literal["__end__", "tools"]\<close>.\<close>

datatype route = END | TOOLS

definition route_model_output :: "state \<Rightarrow> error + route" where
  "route_model_output state =
     (case index_last (messages state) of
        Inl e \<Rightarrow> Inl e
      | Inr last_message \<Rightarrow>
          (case last_message of
             AIMessage a \<Rightarrow> if ai_tool_calls a = [] then Inr END else Inr TOOLS
           | _ \<Rightarrow>
               Inl (ValueError
                 (''Expected AIMessage in output edges, but got '' @ type_name last_message))))"

section \<open>Collaborators\<close>

text \<open>
  Modelled from the spec: the tool descriptor of section 6 (name, argument schema,
  invocation handle); the declaration of the tools (\<^verbatim>\<open>common/tools.py\<close>) is not among the
  sources at hand. Running a tool does not raise on a tool-level failure: it gives the
  output of the tool or a result that carries the failure.
\<close>

datatype tool_result = Output string | Failure string

record tool =
  tool_name :: string
  tool_schema :: string
  tool_handle :: "string \<Rightarrow> tool_result"

text \<open>
  A chat model with tools bound: \<^verbatim>\<open>m.bind_tools(ts).ainvoke(msgs)\<close> is \<open>m ts msgs\<close>. The
  result is the assistant message the source casts the response to (line 48), or the
  exception of the backend.
\<close>

type_synonym chat_model = "tool list \<Rightarrow> message list \<Rightarrow> error + ai_message"

text \<open>
  What the functions of \<^verbatim>\<open>graph.py\<close> reach outside the file at the moment of one call:
  \<^item> \<open>get_tools\<close>: the result of \<^verbatim>\<open>await get_tools()\<close>, the tool set that the registry
    resolves the current configuration to;
  \<^item> \<open>load_chat_model\<close>: \<^verbatim>\<open>common.utils.load_chat_model\<close>, from a model name to a model;
  \<^item> \<open>utc_now_isoformat\<close>: \<^verbatim>\<open>datetime.now(tz=UTC).isoformat()\<close>;
  \<^item> \<open>str_format\<close>: \<^verbatim>\<open>template.format(system_time=t)\<close> as \<open>str_format template t\<close>,
    which raises on a template with another placeholder.
  The four are parameters: their code is not part of \<^verbatim>\<open>graph.py\<close>.
\<close>

record environment =
  get_tools :: "error + tool list"
  load_chat_model :: "string \<Rightarrow> error + chat_model"
  utc_now_isoformat :: string
  str_format :: "string \<Rightarrow> string \<Rightarrow> error + string"

text \<open>\<^verbatim>\<open>runtime.context\<close>: the model name and the system prompt template.\<close>

record Context =
  model :: string
  system_prompt :: string

text \<open>
  The calls a node makes to its collaborators, in the order it makes them: the query of
  the tool registry, and the invocation of a model (by name) with a tool set bound and a
  message list as input.
\<close>

datatype event =
    QueriedTools
  | InvokedModel string "tool list" "message list"

section \<open>The reasoning node\<close>

definition budget_notice :: string where
  "budget_notice =
     ''Sorry, I could not find an answer to your question in the specified number of steps.''"

text \<open>
  \<^verbatim>\<open>call_model\<close> returns \<^verbatim>\<open>{"messages": [m]}\<close>; its embedding returns the list under
  the one key, together with the calls made to the collaborators, in the order of the
  source: the tool registry (line 37), the model loader (line 40), the prompt formatter and
  the clock (lines 43 to 45), the model (lines 48 to 53).
\<close>

definition call_model ::
  "environment \<Rightarrow> Context \<Rightarrow> state \<Rightarrow> event list \<times> (error + message list)" where
  "call_model env ctx state =
     (case get_tools env of
        Inl e \<Rightarrow> ([QueriedTools], Inl e)
      | Inr available_tools \<Rightarrow>
          (case load_chat_model env (model ctx) of
             Inl e \<Rightarrow> ([QueriedTools], Inl e)
           | Inr chat \<Rightarrow>
               (case str_format env (system_prompt ctx) (utc_now_isoformat env) of
                  Inl e \<Rightarrow> ([QueriedTools], Inl e)
                | Inr system_message \<Rightarrow>
                    (let input = SystemMessage system_message # messages state;
                         events = [QueriedTools,
                                   InvokedModel (model ctx) available_tools input]
                     in case chat available_tools input of
                          Inl e \<Rightarrow> (events, Inl e)
                        | Inr response \<Rightarrow>
                            if is_last_step state \<and> ai_tool_calls response \<noteq> [] then
                              (events,
                               Inr [AIMessage (new_AIMessage (ai_id response) budget_notice)])
                            else (events, Inr [AIMessage response])))))"

section \<open>The action node\<close>

text \<open>
  Modelled from the spec: the Tool Executor. \<^verbatim>\<open>dynamic_tools_node\<close> hands the state to
  \<^verbatim>\<open>ToolNode(available_tools).ainvoke\<close>, a class of the \<^verbatim>\<open>langgraph\<close> library whose
  code is not among the sources at hand. Sections 4.2 and 6 of the specification give
  its contract: each request names a tool and is run independently; a tool-level failure does
  not raise but gives a result with a failure indicator; the results are Tool Result
  messages, one per request, in the order of the requests. A request that names no tool of
  the set cannot be run and is a failure of that request. The requests are those of the
  last message, which must be an assistant message.
\<close>

definition invoke_tool :: "tool list \<Rightarrow> tool_call \<Rightarrow> tool_message" where
  "invoke_tool tools call =
     (case find (\<lambda>t. tool_name t = tc_name call) tools of
        None \<Rightarrow>
          \<lparr>tm_content = ''Error: '' @ tc_name call @ '' is not a valid tool'',
           tm_tool_call_id = tc_id call, tm_name = tc_name call, tm_status = Error\<rparr>
      | Some t \<Rightarrow>
          (case tool_handle t (tc_args call) of
             Output out \<Rightarrow>
               \<lparr>tm_content = out, tm_tool_call_id = tc_id call,
                tm_name = tc_name call, tm_status = Success\<rparr>
           | Failure why \<Rightarrow>
               \<lparr>tm_content = why, tm_tool_call_id = tc_id call,
                tm_name = tc_name call, tm_status = Error\<rparr>))"

text \<open>
  Modelled from the spec: \<^verbatim>\<open>ToolNode(tools).ainvoke(state)\<close>, the Tool Executor on the
  requests of the last message (section 4.1, state \<open>Acting\<close>): one Tool Result message per
  request, in the order of the requests. The specification does not say what the executor
  does when the last message is not an assistant message; the model raises there.
\<close>

definition ToolNode :: "tool list \<Rightarrow> state \<Rightarrow> error + message list" where
  "ToolNode tools state =
     (case index_last (messages state) of
        Inl e \<Rightarrow> Inl e
      | Inr last_message \<Rightarrow>
          (case last_message of
             AIMessage a \<Rightarrow> Inr (map (\<lambda>call. ToolMessage (invoke_tool tools call)) (ai_tool_calls a))
           | _ \<Rightarrow> Inl (ValueError ''Last message is not an AIMessage'')))"

text \<open>\<^verbatim>\<open>dynamic_tools_node\<close> of \<^verbatim>\<open>graph.py\<close>: the cast of line 87 does nothing at run time.\<close>

definition dynamic_tools_node ::
  "environment \<Rightarrow> state \<Rightarrow> event list \<times> (error + message list)" where
  "dynamic_tools_node env state =
     (case get_tools env of
        Inl e \<Rightarrow> ([QueriedTools], Inl e)
      | Inr available_tools \<Rightarrow> ([QueriedTools], ToolNode available_tools state))"

section \<open>The graph\<close>

text \<open>
  Modelled from the spec: how the list a node returns becomes part of the state. The
  declaration of \<^verbatim>\<open>State\<close> (\<^verbatim>\<open>react_agent/state.py\<close>) with the reducer of its
  \<^verbatim>\<open>messages\<close> field is not among the sources at hand. Section 3 of the specification: the
  sequence is append-only, and the controller appends the new messages after each phase.
\<close>

definition add_messages :: "message list \<Rightarrow> message list \<Rightarrow> message list" where
  "add_messages left right = left @ right"

text \<open>
  Modelled from the spec: the update of the state by the list a node returns, the append of
  section 3. The step flag is set by the engine, not by a node.
\<close>

definition apply_update :: "state \<Rightarrow> message list \<Rightarrow> state" where
  "apply_update state update = state\<lparr>messages := add_messages (messages state) update\<rparr>"

text \<open>
  Modelled from the spec: the engine that walks the graph of lines 92 to 139 (entry edge to
  \<^verbatim>\<open>call_model\<close>, conditional edge by \<^verbatim>\<open>route_model_output\<close>, edge from \<^verbatim>\<open>tools\<close>
  back to \<^verbatim>\<open>call_model\<close>). The engine is the \<^verbatim>\<open>langgraph\<close> library; section 4.1 of
  the specification gives the loop: a reasoning phase, the decision, an action phase, and
  the step budget, with \<^verbatim>\<open>is_last_step\<close> true on the last permitted reasoning invocation.
  \<open>run envs ctx cycle n msgs\<close> has \<open>n\<close> reasoning invocations left; \<open>envs k\<close> is the
  outside world at cycle \<open>k\<close>. An error of a node or of the routing ends the run with the
  state accumulated so far. With no invocation left the engine stops the run with an error.
\<close>

datatype outcome = Done | Failed error

fun run ::
  "(nat \<Rightarrow> environment) \<Rightarrow> Context \<Rightarrow> nat \<Rightarrow> nat \<Rightarrow> message list \<Rightarrow> outcome \<times> message list" where
  "run envs ctx cycle 0 msgs = (Failed (Raised ''GraphRecursionError''), msgs)"
| "run envs ctx cycle (Suc n) msgs =
     (let state = \<lparr>messages = msgs, is_last_step = (n = 0)\<rparr> in
      case snd (call_model (envs cycle) ctx state) of
        Inl e \<Rightarrow> (Failed e, msgs)
      | Inr response \<Rightarrow>
          (let state1 = apply_update state response in
           case route_model_output state1 of
             Inl e \<Rightarrow> (Failed e, messages state1)
           | Inr END \<Rightarrow> (Done, messages state1)
           | Inr TOOLS \<Rightarrow>
               (case snd (dynamic_tools_node (envs cycle) state1) of
                  Inl e \<Rightarrow> (Failed e, messages state1)
                | Inr results \<Rightarrow>
                    run envs ctx (Suc cycle) n (messages (apply_update state1 results)))))"

section \<open>A worked scenario\<close>

text \<open>
  The scenario of section 8 of the specification: the history is one human message, the
  model first asks for the calculator and then answers. The values below are the concrete
  inputs at which the theorems are instantiated.
\<close>

definition calculator :: tool where
  "calculator =
     \<lparr>tool_name = ''calculator'', tool_schema = ''expr'',
      tool_handle = (\<lambda>args. if args = ''2+2'' then Output ''4'' else Failure ''cannot evaluate'')\<rparr>"

definition calculator_request :: tool_call where
  "calculator_request = \<lparr>tc_name = ''calculator'', tc_args = ''2+2'', tc_id = ''call_1''\<rparr>"

definition asking :: ai_message where
  "asking =
     \<lparr>ai_content = '''', ai_id = Some ''run-1'', ai_tool_calls = [calculator_request],
      ai_name = None, ai_additional_kwargs = [],
      ai_response_metadata = [(''model_name'', ''m'')], ai_usage_metadata = None\<rparr>"

definition answering :: ai_message where
  "answering =
     \<lparr>ai_content = ''4'', ai_id = Some ''run-2'', ai_tool_calls = [],
      ai_name = None, ai_additional_kwargs = [],
      ai_response_metadata = [(''model_name'', ''m'')], ai_usage_metadata = None\<rparr>"

definition question :: "message list" where
  "question = [HumanMessage ''2+2?'']"

definition failing_request :: tool_call where
  "failing_request = \<lparr>tc_name = ''calculator'', tc_args = ''1/0'', tc_id = ''call_2''\<rparr>"

definition asking_twice :: ai_message where
  "asking_twice =
     \<lparr>ai_content = '''', ai_id = Some ''run-1'',
      ai_tool_calls = [calculator_request, failing_request],
      ai_name = None, ai_additional_kwargs = [],
      ai_response_metadata = [], ai_usage_metadata = None\<rparr>"

definition calculator_result :: tool_message where
  "calculator_result =
     \<lparr>tm_content = ''4'', tm_tool_call_id = ''call_1'', tm_name = ''calculator'',
      tm_status = Success\<rparr>"

definition example_environment :: "tool list \<Rightarrow> ai_message \<Rightarrow> environment" where
  "example_environment tools response =
     \<lparr>get_tools = Inr tools,
      load_chat_model = (\<lambda>name. Inr (\<lambda>bound input. Inr response)),
      utc_now_isoformat = ''2025-01-01T00:00:00+00:00'',
      str_format = (\<lambda>template t.
        if template = ''System time: {system_time}'' then Inr (''System time: '' @ t)
        else Inl (Raised ''KeyError''))\<rparr>"

definition example_context :: Context where
  "example_context = \<lparr>model = ''m'', system_prompt = ''System time: {system_time}''\<rparr>"

definition example_system_message :: string where
  "example_system_message = ''System time: 2025-01-01T00:00:00+00:00''"

definition scenario :: "nat \<Rightarrow> environment" where
  "scenario cycle =
     (if cycle = 0 then example_environment [calculator] asking
      else example_environment [calculator] answering)"

text \<open>
  A model that shows what it was given: its answer quotes the system message at the head of
  its input and the names of the tools bound to it. It asks for the calculator on the first
  cycle (an input of two messages) and answers afterwards. \<open>changing_registry\<close> is a world
  whose registry enables the calculator in the first cycle and no tool later.
\<close>

definition probe_answer :: "string \<Rightarrow> tool_call list \<Rightarrow> ai_message" where
  "probe_answer said calls =
     \<lparr>ai_content = said, ai_id = None, ai_tool_calls = calls, ai_name = None,
      ai_additional_kwargs = [], ai_response_metadata = [], ai_usage_metadata = None\<rparr>"

definition probe :: chat_model where
  "probe bound input =
     Inr (probe_answer
            ((case input of SystemMessage sm # _ \<Rightarrow> sm | _ \<Rightarrow> ''no system message'')
             @ '' tools: '' @ concat (map tool_name bound))
            (if length input \<le> 2 then [calculator_request] else []))"

definition probing_environment :: "tool list \<Rightarrow> environment" where
  "probing_environment tools =
     (example_environment tools answering)\<lparr>load_chat_model := (\<lambda>name. Inr probe)\<rparr>"

definition changing_registry :: "nat \<Rightarrow> environment" where
  "changing_registry cycle =
     (if cycle = 0 then probing_environment [calculator] else probing_environment [])"

section \<open>Auxiliary facts about the routing decision\<close>

lemma index_last_snoc: "index_last (xs @ [x]) = Inr x"
  by (simp add: index_last_def)

lemma route_model_output_last:
  assumes "messages state = earlier @ [m]"
  shows "route_model_output state =
     (case m of
        AIMessage a \<Rightarrow> if ai_tool_calls a = [] then Inr END else Inr TOOLS
      | _ \<Rightarrow> Inl (ValueError (''Expected AIMessage in output edges, but got '' @ type_name m)))"
  using assms by (simp add: route_model_output_def index_last_snoc)

lemma route_model_output_empty:
  "messages state = [] \<Longrightarrow> route_model_output state = Inl IndexError"
  by (simp add: route_model_output_def index_last_def)

section \<open>Auxiliary facts about the reasoning node\<close>

lemma example_environment_simps:
  "get_tools (example_environment tools response) = Inr tools"
  "load_chat_model (example_environment tools response) name = Inr (\<lambda>bound input. Inr response)"
  "str_format (example_environment tools response) (system_prompt example_context)
     (utc_now_isoformat (example_environment tools response)) = Inr example_system_message"
  "model example_context = ''m''"
  by (simp_all add: example_environment_def example_context_def example_system_message_def)

lemma call_model_success:
  assumes "get_tools env = Inr ts"
    and "load_chat_model env (model ctx) = Inr chat"
    and "str_format env (system_prompt ctx) (utc_now_isoformat env) = Inr sm"
    and "chat ts (SystemMessage sm # messages state) = Inr response"
  shows "call_model env ctx state =
     ([QueriedTools, InvokedModel (model ctx) ts (SystemMessage sm # messages state)],
      Inr [AIMessage (if is_last_step state \<and> ai_tool_calls response \<noteq> []
                      then new_AIMessage (ai_id response) budget_notice else response)])"
  using assms by (simp add: call_model_def Let_def)

lemma call_model_returns:
  assumes "snd (call_model env ctx state) = Inr update"
  shows "\<exists>ts chat sm response.
           get_tools env = Inr ts \<and> load_chat_model env (model ctx) = Inr chat \<and>
           str_format env (system_prompt ctx) (utc_now_isoformat env) = Inr sm \<and>
           chat ts (SystemMessage sm # messages state) = Inr response \<and>
           update = [AIMessage (if is_last_step state \<and> ai_tool_calls response \<noteq> []
                      then new_AIMessage (ai_id response) budget_notice else response)]"
  using assms
  by (auto simp: call_model_def Let_def split: sum.splits if_splits)

lemma call_model_invocation:
  assumes "InvokedModel name bound input \<in> set (fst (call_model env ctx state))"
  shows "name = model ctx \<and> get_tools env = Inr bound \<and>
         (\<exists>sm. str_format env (system_prompt ctx) (utc_now_isoformat env) = Inr sm \<and>
               input = SystemMessage sm # messages state)"
  using assms
  by (auto simp: call_model_def Let_def split: sum.splits if_splits)

lemma call_model_queries_once:
  "filter (\<lambda>ev. ev = QueriedTools) (fst (call_model env ctx state)) = [QueriedTools]"
  by (auto simp: call_model_def Let_def split: sum.splits if_splits)

lemma probing_environment_simps:
  "get_tools (probing_environment tools) = Inr tools"
  "load_chat_model (probing_environment tools) name = Inr probe"
  "str_format (probing_environment tools) (system_prompt example_context)
     (utc_now_isoformat (probing_environment tools)) = Inr example_system_message"
  by (simp_all add: probing_environment_def example_environment_def example_context_def
        example_system_message_def)

lemma call_model_result:
  assumes "get_tools env = Inr ts"
    and "load_chat_model env (model ctx) = Inr chat"
    and "str_format env (system_prompt ctx) (utc_now_isoformat env) = Inr sm"
  shows "snd (call_model env ctx state) =
     (case chat ts (SystemMessage sm # messages state) of
        Inl e \<Rightarrow> Inl e
      | Inr response \<Rightarrow>
          Inr [AIMessage (if is_last_step state \<and> ai_tool_calls response \<noteq> []
                          then new_AIMessage (ai_id response) budget_notice else response)])"
  using assms by (simp add: call_model_def Let_def split: sum.splits)

lemma call_model_registry_failure:
  assumes "get_tools env = Inl e"
  shows "snd (call_model env ctx state) = Inl e"
  using assms by (simp add: call_model_def)

lemma dynamic_tools_node_result:
  "snd (dynamic_tools_node env state) =
     (case get_tools env of Inl e \<Rightarrow> Inl e | Inr ts \<Rightarrow> ToolNode ts state)"
  by (simp add: dynamic_tools_node_def split: sum.splits)

section \<open>Auxiliary facts about the action node and the run\<close>

lemma invoke_tool_call_id: "tm_tool_call_id (invoke_tool tools call) = tc_id call"
  by (simp add: invoke_tool_def split: option.splits tool_result.splits)

lemma invoke_tool_failure:
  assumes "find (\<lambda>t. tool_name t = tc_name call) tools = Some t"
    and "tool_handle t (tc_args call) = Failure why"
  shows "tm_status (invoke_tool tools call) = Error \<and> tm_content (invoke_tool tools call) = why"
  using assms by (simp add: invoke_tool_def)

lemma invoke_tool_unknown:
  assumes "find (\<lambda>t. tool_name t = tc_name call) tools = None"
  shows "tm_status (invoke_tool tools call) = Error"
  using assms by (simp add: invoke_tool_def)

lemma ToolNode_assistant:
  assumes "messages state = earlier @ [AIMessage a]"
  shows "ToolNode tools state =
           Inr (map (\<lambda>call. ToolMessage (invoke_tool tools call)) (ai_tool_calls a))"
  using assms by (simp add: ToolNode_def index_last_snoc)

lemma apply_update_messages: "messages (apply_update state update) = messages state @ update"
  by (simp add: apply_update_def add_messages_def)

lemma run_appends: "\<exists>new. snd (run envs ctx cycle n msgs) = msgs @ new"
proof (induction n arbitrary: cycle msgs)
  case 0
  show ?case by simp
next
  case (Suc n)
  let ?state = "\<lparr>messages = msgs, is_last_step = (n = 0)\<rparr>"
  show ?case
  proof (cases "snd (call_model (envs cycle) ctx ?state)")
    case (Inl e)
    then show ?thesis by simp
  next
    case reasoning: (Inr response)
    let ?state1 = "apply_update ?state response"
    have m1: "messages ?state1 = msgs @ response"
      by (simp add: apply_update_messages)
    show ?thesis
    proof (cases "route_model_output ?state1")
      case (Inl e)
      with reasoning m1 show ?thesis by (simp add: Let_def)
    next
      case routed: (Inr r)
      show ?thesis
      proof (cases r)
        case END
        with reasoning routed m1 show ?thesis by (simp add: Let_def)
      next
        case TOOLS
        show ?thesis
        proof (cases "snd (dynamic_tools_node (envs cycle) ?state1)")
          case (Inl e)
          with reasoning routed TOOLS m1 show ?thesis by (simp add: Let_def)
        next
          case acting: (Inr results)
          from Suc.IH [of "Suc cycle" "msgs @ response @ results"]
          obtain new where
            "snd (run envs ctx (Suc cycle) n (msgs @ response @ results)) =
               (msgs @ response @ results) @ new"
            by blast
          with reasoning routed TOOLS acting m1 show ?thesis
            by (simp add: Let_def apply_update_messages)
        qed
      qed
    qed
  qed
qed

lemma run_two_cycles:
  assumes "get_tools (envs c) = Inr ts0"
    and "load_chat_model (envs c) (model ctx) = Inr chat0"
    and "str_format (envs c) (system_prompt ctx) (utc_now_isoformat (envs c)) = Inr sm0"
    and "chat0 ts0 (SystemMessage sm0 # msgs) = Inr r0"
    and "ai_tool_calls r0 \<noteq> []"
    and "msgs1 = msgs @ AIMessage r0 #
           map (\<lambda>call. ToolMessage (invoke_tool ts0 call)) (ai_tool_calls r0)"
    and "get_tools (envs (Suc c)) = Inr ts1"
    and "load_chat_model (envs (Suc c)) (model ctx) = Inr chat1"
    and "str_format (envs (Suc c)) (system_prompt ctx) (utc_now_isoformat (envs (Suc c))) =
           Inr sm1"
    and "chat1 ts1 (SystemMessage sm1 # msgs1) = Inr r1"
    and "ai_tool_calls r1 = []"
  shows "run envs ctx c (Suc (Suc n)) msgs = (Done, msgs1 @ [AIMessage r1])"
proof -
  let ?state = "\<lparr>messages = msgs, is_last_step = False\<rparr>"
  let ?state1 = "apply_update ?state [AIMessage r0]"
  have first: "snd (call_model (envs c) ctx ?state) = Inr [AIMessage r0]"
    using assms(1-4) by (simp add: call_model_success)
  have m1: "messages ?state1 = msgs @ [AIMessage r0]"
    by (simp add: apply_update_messages)
  have routed: "route_model_output ?state1 = Inr TOOLS"
    using assms(5) by (simp add: route_model_output_last [OF m1])
  have acted: "snd (dynamic_tools_node (envs c) ?state1) =
      Inr (map (\<lambda>call. ToolMessage (invoke_tool ts0 call)) (ai_tool_calls r0))"
    using assms(1) by (simp add: dynamic_tools_node_def ToolNode_assistant [OF m1])
  have step: "run envs ctx c (Suc (Suc n)) msgs = run envs ctx (Suc c) (Suc n) msgs1"
    using first routed acted m1 assms(6) by (simp add: Let_def apply_update_messages)
  let ?state2 = "\<lparr>messages = msgs1, is_last_step = (n = 0)\<rparr>"
  have second: "snd (call_model (envs (Suc c)) ctx ?state2) = Inr [AIMessage r1]"
    using assms(7-11) by (simp add: call_model_success)
  have m2: "messages (apply_update ?state2 [AIMessage r1]) = msgs1 @ [AIMessage r1]"
    by (simp add: apply_update_messages)
  have ended: "route_model_output (apply_update ?state2 [AIMessage r1]) = Inr END"
    using assms(11) by (simp add: route_model_output_last [OF m2])
  have "run envs ctx (Suc c) (Suc n) msgs1 = (Done, msgs1 @ [AIMessage r1])"
    using second ended m2 by (simp add: Let_def)
  with step show ?thesis by simp
qed

text \<open>
  The two scenarios of section 8 of the specification: with budget left the run ends after
  question, request, tool result and answer; with a budget of one invocation it ends with
  the question and the notice.
\<close>

lemma run_scenario:
  "run scenario example_context 0 (Suc (Suc (Suc (Suc (Suc 0))))) question =
     (Done, [HumanMessage ''2+2?'', AIMessage asking, ToolMessage calculator_result,
             AIMessage answering])"
  by (simp add: scenario_def question_def call_model_success example_environment_simps
        route_model_output_def index_last_def apply_update_messages dynamic_tools_node_def
        ToolNode_def invoke_tool_def calculator_def calculator_request_def calculator_result_def
        asking_def answering_def)

lemma run_budget_scenario:
  "run scenario example_context 0 (Suc 0) question =
     (Done, [HumanMessage ''2+2?'',
             AIMessage (new_AIMessage (Some ''run-1'') budget_notice)])"
  by (simp add: scenario_def question_def call_model_success example_environment_simps
        route_model_output_def index_last_def apply_update_messages asking_def new_AIMessage_def)

section \<open>Properties of the routing decision\<close>

text \<open>
  Claim C2. When the last message of the state is an assistant message, the routing
  decision returns the terminal route if the message requests no tool call, and the action
  route if it requests at least one and the cycle is not the last permitted step.
\<close>

theorem route_model_output_assistant:
  assumes "messages state = earlier @ [AIMessage a]"
  shows "(ai_tool_calls a = [] \<longrightarrow> route_model_output state = Inr END) \<and>
         (ai_tool_calls a \<noteq> [] \<and> \<not> is_last_step state \<longrightarrow> route_model_output state = Inr TOOLS)"
  using assms by (simp add: route_model_output_last)

theorem route_model_output_assistant_witness:
  "route_model_output \<lparr>messages = question @ [AIMessage answering], is_last_step = False\<rparr> = Inr END \<and>
   route_model_output \<lparr>messages = question @ [AIMessage asking], is_last_step = False\<rparr> = Inr TOOLS"
  using route_model_output_assistant
          [of "\<lparr>messages = question @ [AIMessage answering], is_last_step = False\<rparr>" question answering]
        route_model_output_assistant
          [of "\<lparr>messages = question @ [AIMessage asking], is_last_step = False\<rparr>" question asking]
  by (simp add: asking_def answering_def)

text \<open>
  Claim C3, as amended. When the last message of the state is not an assistant message, the
  routing decision raises the \<open>ValueError\<close> of lines 116 to 118 (the specification's
  \<open>InvalidState\<close>) and returns no route. On a state with at least one message this is
  the only error of the routing decision, and it is raised only in that case. On a state
  with no message the index access of line 114 fails with \<open>IndexError\<close>.
\<close>

theorem route_model_output_invalid_state:
  "(messages state = earlier @ [m] \<and> \<not> isinstance_AIMessage m \<longrightarrow>
      route_model_output state =
        Inl (ValueError (''Expected AIMessage in output edges, but got '' @ type_name m))) \<and>
   (messages state \<noteq> [] \<and> route_model_output state = Inl e \<longrightarrow>
      \<not> isinstance_AIMessage (last (messages state)) \<and>
      e = ValueError (''Expected AIMessage in output edges, but got '' @
            type_name (last (messages state)))) \<and>
   (messages state = [] \<longrightarrow> route_model_output state = Inl IndexError)"
proof -
  have raised: "route_model_output state =
        Inl (ValueError (''Expected AIMessage in output edges, but got '' @ type_name m))"
    if "messages state = earlier @ [m] \<and> \<not> isinstance_AIMessage m"
    using that by (cases m) (simp_all add: route_model_output_last)
  have only: "\<not> isinstance_AIMessage (last (messages state)) \<and>
      e = ValueError (''Expected AIMessage in output edges, but got '' @
            type_name (last (messages state)))"
    if h: "messages state \<noteq> [] \<and> route_model_output state = Inl e"
  proof -
    from h have snoc: "messages state = butlast (messages state) @ [last (messages state)]"
      by simp
    from h have "route_model_output state = Inl e" by simp
    then have r: "(case last (messages state) of
          AIMessage a \<Rightarrow> if ai_tool_calls a = [] then Inr END else Inr TOOLS
        | _ \<Rightarrow> Inl (ValueError (''Expected AIMessage in output edges, but got '' @
                type_name (last (messages state))))) = Inl e"
      by (simp only: route_model_output_last [OF snoc])
    show ?thesis
    proof (cases "last (messages state)")
      case (AIMessage a)
      with r show ?thesis by (simp split: if_splits)
    next
      case (SystemMessage c)
      with r show ?thesis by auto
    next
      case (HumanMessage c)
      with r show ?thesis by auto
    next
      case (ToolMessage c)
      with r show ?thesis by auto
    qed
  qed
  have empty: "route_model_output state = Inl IndexError" if "messages state = []"
    using that by (rule route_model_output_empty)
  show ?thesis
    by (rule conjI [OF impI [OF raised] conjI [OF impI [OF only] impI [OF empty]]])
qed

theorem route_model_output_invalid_state_witness:
  "route_model_output \<lparr>messages = question, is_last_step = False\<rparr> =
     Inl (ValueError ''Expected AIMessage in output edges, but got HumanMessage'')"
  using route_model_output_invalid_state
          [of "\<lparr>messages = question, is_last_step = False\<rparr>" "[]" "HumanMessage ''2+2?''"
              IndexError, THEN conjunct1]
  by (simp add: question_def)

text \<open>
  The claim as stated, that the \<open>ValueError\<close> is the only error of the routing decision,
  fails on the empty state: the error there is the \<open>IndexError\<close> of the index access.
\<close>

theorem route_model_output_only_error_counterexample:
  "route_model_output \<lparr>messages = [], is_last_step = False\<rparr> = Inl IndexError"
  by (simp add: route_model_output_empty)

text \<open>
  Claim C6. The routing decision is a function of the last message alone: two states whose
  last messages are equal get the same route or the same error, whatever the earlier
  messages and the step flag are.
\<close>

theorem route_model_output_depends_on_last_message:
  assumes "messages s = earlier @ [m]" and "messages t = earlier' @ [m]"
  shows "route_model_output s = route_model_output t"
  using assms by (simp add: route_model_output_last)

theorem route_model_output_depends_on_last_message_witness:
  "route_model_output \<lparr>messages = question @ [AIMessage asking], is_last_step = False\<rparr> =
   route_model_output \<lparr>messages = [AIMessage asking], is_last_step = True\<rparr>"
  using route_model_output_depends_on_last_message
          [of "\<lparr>messages = question @ [AIMessage asking], is_last_step = False\<rparr>" question
              "AIMessage asking" "\<lparr>messages = [AIMessage asking], is_last_step = True\<rparr>" "[]"]
  by simp

text \<open>
  Claim C10. The routing decision reads only \<^verbatim>\<open>messages[-1]\<close>: on a state with at least
  one message the access succeeds and the decision is that of the state holding the last
  message alone, and on a state with no message the access fails and no route is returned.
\<close>

theorem route_model_output_needs_a_message:
  "(messages state \<noteq> [] \<longrightarrow>
      route_model_output state \<noteq> Inl IndexError \<and>
      route_model_output state =
        route_model_output \<lparr>messages = [last (messages state)], is_last_step = b\<rparr>) \<and>
   (messages state = [] \<longrightarrow> route_model_output state = Inl IndexError)"
proof (intro conjI impI)
  assume ne: "messages state \<noteq> []"
  then have snoc: "messages state = butlast (messages state) @ [last (messages state)]"
    by simp
  show "route_model_output state \<noteq> Inl IndexError"
    by (subst route_model_output_last [OF snoc])
       (simp split: message.split)
  show "route_model_output state =
        route_model_output \<lparr>messages = [last (messages state)], is_last_step = b\<rparr>"
  proof -
    have one: "messages \<lparr>messages = [last (messages state)], is_last_step = b\<rparr> =
        [] @ [last (messages state)]"
      by simp
    show ?thesis
      by (simp only: route_model_output_last [OF snoc] route_model_output_last [OF one])
  qed
next
  assume "messages state = []"
  then show "route_model_output state = Inl IndexError"
    by (rule route_model_output_empty)
qed

theorem route_model_output_needs_a_message_witness:
  "route_model_output \<lparr>messages = question, is_last_step = False\<rparr> \<noteq> Inl IndexError \<and>
   route_model_output \<lparr>messages = question, is_last_step = False\<rparr> =
     route_model_output \<lparr>messages = [HumanMessage ''2+2?''], is_last_step = True\<rparr> \<and>
   route_model_output \<lparr>messages = [], is_last_step = False\<rparr> = Inl IndexError"
  using route_model_output_needs_a_message
          [of "\<lparr>messages = question, is_last_step = False\<rparr>" True]
        route_model_output_needs_a_message
          [of "\<lparr>messages = [], is_last_step = False\<rparr>" True]
  by (auto simp: question_def)

section \<open>Properties of the reasoning node\<close>

text \<open>
  Claim C1. When \<^verbatim>\<open>is_last_step\<close> is true and the response of the model requests at least
  one tool call, \<^verbatim>\<open>call_model\<close> returns a single assistant message whose tool-call list is
  empty and whose content is the fixed budget-exceeded notice; that message, and not the
  response of the model, is what the state gains.
\<close>

theorem call_model_budget_exceeded:
  assumes "is_last_step state"
    and "get_tools env = Inr ts"
    and "load_chat_model env (model ctx) = Inr chat"
    and "str_format env (system_prompt ctx) (utc_now_isoformat env) = Inr sm"
    and "chat ts (SystemMessage sm # messages state) = Inr response"
    and "ai_tool_calls response \<noteq> []"
  shows "\<exists>m. snd (call_model env ctx state) = Inr [AIMessage m] \<and>
             ai_tool_calls m = [] \<and> ai_content m = budget_notice \<and> m \<noteq> response \<and>
             messages (apply_update state [AIMessage m]) = messages state @ [AIMessage m]"
proof -
  let ?m = "new_AIMessage (ai_id response) budget_notice"
  have "snd (call_model env ctx state) = Inr [AIMessage ?m]"
    using assms by (simp add: call_model_success)
  moreover have "ai_tool_calls ?m = []" and "ai_content ?m = budget_notice"
    by (simp_all add: new_AIMessage_def)
  moreover have "?m \<noteq> response"
    using \<open>ai_tool_calls response \<noteq> []\<close> \<open>ai_tool_calls ?m = []\<close> by metis
  moreover have "messages (apply_update state [AIMessage ?m]) = messages state @ [AIMessage ?m]"
    by (simp add: apply_update_def add_messages_def)
  ultimately show ?thesis by blast
qed

theorem call_model_budget_exceeded_witness:
  "\<exists>m. snd (call_model (example_environment [calculator] asking) example_context
             \<lparr>messages = question, is_last_step = True\<rparr>) = Inr [AIMessage m] \<and>
       ai_tool_calls m = [] \<and> ai_content m = budget_notice \<and> m \<noteq> asking \<and>
       messages (apply_update \<lparr>messages = question, is_last_step = True\<rparr> [AIMessage m]) =
         question @ [AIMessage m]"
  using call_model_budget_exceeded
          [of "\<lparr>messages = question, is_last_step = True\<rparr>"
              "example_environment [calculator] asking" "[calculator]" example_context
              "\<lambda>bound input. Inr asking" example_system_message asking]
  by (simp add: example_environment_simps asking_def)

text \<open>
  Claim C7. Every call of \<^verbatim>\<open>call_model\<close> queries the tool registry, once and first: when
  the query fails the call fails with its error, and when it succeeds the call returns what
  the model gives when it is bound to exactly the tool set of that query (and wrapped as
  lines 56 to 67 say). The action node builds its executor from a query of its own in the
  same way. Nothing is kept from one cycle to the next: in a run whose first cycle goes
  through the action phase, the second reasoning invocation is bound to the tool set the
  registry gives in the second cycle, whatever it gave in the first.
\<close>

theorem tools_fetched_on_every_invocation:
  "(get_tools env = Inl e \<longrightarrow>
      snd (call_model env ctx state) = Inl e \<and> snd (dynamic_tools_node env state) = Inl e) \<and>
   (get_tools env = Inr ts \<and> load_chat_model env (model ctx) = Inr chat \<and>
    str_format env (system_prompt ctx) (utc_now_isoformat env) = Inr sm \<longrightarrow>
      snd (call_model env ctx state) =
        (case chat ts (SystemMessage sm # messages state) of
           Inl e \<Rightarrow> Inl e
         | Inr response \<Rightarrow>
             Inr [AIMessage (if is_last_step state \<and> ai_tool_calls response \<noteq> []
                             then new_AIMessage (ai_id response) budget_notice
                             else response)]) \<and>
      fst (call_model env ctx state) =
        [QueriedTools, InvokedModel (model ctx) ts (SystemMessage sm # messages state)]) \<and>
   (get_tools env = Inr ts \<longrightarrow>
      dynamic_tools_node env state = ([QueriedTools], ToolNode ts state)) \<and>
   filter (\<lambda>ev. ev = QueriedTools) (fst (call_model env ctx state)) = [QueriedTools] \<and>
   (\<forall>name bound input.
      InvokedModel name bound input \<in> set (fst (call_model env ctx state)) \<longrightarrow>
      get_tools env = Inr bound) \<and>
   (get_tools (envs c) = Inr ts0 \<and> load_chat_model (envs c) (model ctx) = Inr chat0 \<and>
    str_format (envs c) (system_prompt ctx) (utc_now_isoformat (envs c)) = Inr sm0 \<and>
    chat0 ts0 (SystemMessage sm0 # msgs) = Inr r0 \<and> ai_tool_calls r0 \<noteq> [] \<and>
    msgs1 = msgs @ AIMessage r0 #
      map (\<lambda>call. ToolMessage (invoke_tool ts0 call)) (ai_tool_calls r0) \<and>
    get_tools (envs (Suc c)) = Inr ts1 \<and>
    load_chat_model (envs (Suc c)) (model ctx) = Inr chat1 \<and>
    str_format (envs (Suc c)) (system_prompt ctx) (utc_now_isoformat (envs (Suc c))) =
      Inr sm1 \<and>
    chat1 ts1 (SystemMessage sm1 # msgs1) = Inr r1 \<and> ai_tool_calls r1 = [] \<longrightarrow>
      run envs ctx c (Suc (Suc n)) msgs = (Done, msgs1 @ [AIMessage r1]))"
proof -
  have failure: "snd (call_model env ctx state) = Inl e \<and>
      snd (dynamic_tools_node env state) = Inl e"
    if "get_tools env = Inl e"
    using that by (simp add: call_model_registry_failure dynamic_tools_node_result)
  have bound: "snd (call_model env ctx state) =
        (case chat ts (SystemMessage sm # messages state) of
           Inl e \<Rightarrow> Inl e
         | Inr response \<Rightarrow>
             Inr [AIMessage (if is_last_step state \<and> ai_tool_calls response \<noteq> []
                             then new_AIMessage (ai_id response) budget_notice
                             else response)]) \<and>
      fst (call_model env ctx state) =
        [QueriedTools, InvokedModel (model ctx) ts (SystemMessage sm # messages state)]"
    if h: "get_tools env = Inr ts \<and> load_chat_model env (model ctx) = Inr chat \<and>
        str_format env (system_prompt ctx) (utc_now_isoformat env) = Inr sm"
  proof
    from h show "snd (call_model env ctx state) =
        (case chat ts (SystemMessage sm # messages state) of
           Inl e \<Rightarrow> Inl e
         | Inr response \<Rightarrow>
             Inr [AIMessage (if is_last_step state \<and> ai_tool_calls response \<noteq> []
                             then new_AIMessage (ai_id response) budget_notice
                             else response)])"
      by (simp add: call_model_result)
    from h show "fst (call_model env ctx state) =
        [QueriedTools, InvokedModel (model ctx) ts (SystemMessage sm # messages state)]"
      by (simp add: call_model_def Let_def split: sum.splits)
  qed
  have action: "dynamic_tools_node env state = ([QueriedTools], ToolNode ts state)"
    if "get_tools env = Inr ts"
    using that by (simp add: dynamic_tools_node_def)
  have once: "filter (\<lambda>ev. ev = QueriedTools) (fst (call_model env ctx state)) = [QueriedTools]"
    by (rule call_model_queries_once)
  have logged: "\<forall>name bound input.
      InvokedModel name bound input \<in> set (fst (call_model env ctx state)) \<longrightarrow>
      get_tools env = Inr bound"
    using call_model_invocation by blast
  have cycles: "run envs ctx c (Suc (Suc n)) msgs = (Done, msgs1 @ [AIMessage r1])"
    if "get_tools (envs c) = Inr ts0 \<and> load_chat_model (envs c) (model ctx) = Inr chat0 \<and>
    str_format (envs c) (system_prompt ctx) (utc_now_isoformat (envs c)) = Inr sm0 \<and>
    chat0 ts0 (SystemMessage sm0 # msgs) = Inr r0 \<and> ai_tool_calls r0 \<noteq> [] \<and>
    msgs1 = msgs @ AIMessage r0 #
      map (\<lambda>call. ToolMessage (invoke_tool ts0 call)) (ai_tool_calls r0) \<and>
    get_tools (envs (Suc c)) = Inr ts1 \<and>
    load_chat_model (envs (Suc c)) (model ctx) = Inr chat1 \<and>
    str_format (envs (Suc c)) (system_prompt ctx) (utc_now_isoformat (envs (Suc c))) =
      Inr sm1 \<and>
    chat1 ts1 (SystemMessage sm1 # msgs1) = Inr r1 \<and> ai_tool_calls r1 = []"
    using that by (elim conjE) (rule run_two_cycles, assumption+)
  show ?thesis
    by (rule conjI [OF impI [OF failure] conjI [OF impI [OF bound] conjI [OF impI [OF action]
          conjI [OF once conjI [OF logged impI [OF cycles]]]]]])
qed

theorem tools_fetched_on_every_invocation_witness:
  "snd (call_model (probing_environment [calculator]) example_context
         \<lparr>messages = question, is_last_step = False\<rparr>) =
     Inr [AIMessage (probe_answer ''System time: 2025-01-01T00:00:00+00:00 tools: calculator''
                       [calculator_request])] \<and>
   snd (call_model (probing_environment []) example_context
         \<lparr>messages = question, is_last_step = False\<rparr>) =
     Inr [AIMessage (probe_answer ''System time: 2025-01-01T00:00:00+00:00 tools: ''
                       [calculator_request])] \<and>
   run changing_registry example_context 0 (Suc (Suc 0)) question =
     (Done,
      [HumanMessage ''2+2?'',
       AIMessage (probe_answer ''System time: 2025-01-01T00:00:00+00:00 tools: calculator''
                    [calculator_request]),
       ToolMessage calculator_result,
       AIMessage (probe_answer ''System time: 2025-01-01T00:00:00+00:00 tools: '' [])])"
proof -
  let ?state = "\<lparr>messages = question, is_last_step = False\<rparr>"
  let ?r0 = "probe_answer ''System time: 2025-01-01T00:00:00+00:00 tools: calculator''
               [calculator_request]"
  let ?r1 = "probe_answer ''System time: 2025-01-01T00:00:00+00:00 tools: '' []"
  note bound = tools_fetched_on_every_invocation [THEN conjunct2, THEN conjunct1, rule_format]
  note cycles = tools_fetched_on_every_invocation
                  [THEN conjunct2, THEN conjunct2, THEN conjunct2, THEN conjunct2,
                   THEN conjunct2, rule_format]
  have with_calculator:
    "snd (call_model (probing_environment [calculator]) example_context ?state) =
       Inr [AIMessage ?r0]"
    using bound [of "probing_environment [calculator]" "[calculator]" example_context probe
                    example_system_message ?state]
    by (simp add: probing_environment_simps probe_def question_def example_system_message_def
          calculator_def)
  have with_nothing:
    "snd (call_model (probing_environment []) example_context ?state) =
       Inr [AIMessage (probe_answer ''System time: 2025-01-01T00:00:00+00:00 tools: ''
                         [calculator_request])]"
    using bound [of "probing_environment []" "[]" example_context probe
                    example_system_message ?state]
    by (simp add: probing_environment_simps probe_def question_def example_system_message_def)
  have whole:
    "run changing_registry example_context 0 (Suc (Suc 0)) question =
       (Done, (question @ AIMessage ?r0 #
                 map (\<lambda>call. ToolMessage (invoke_tool [calculator] call)) (ai_tool_calls ?r0))
              @ [AIMessage ?r1])"
    by (rule cycles [where ?ts0.0 = "[calculator]" and ?chat0.0 = probe
                       and ?sm0.0 = example_system_message and ?ts1.0 = "[]"
                       and ?chat1.0 = probe and ?sm1.0 = example_system_message
                       and ?r0.0 = ?r0])
       (simp add: changing_registry_def probing_environment_simps probe_def question_def
          example_system_message_def calculator_def probe_answer_def)
  have result: "invoke_tool [calculator] calculator_request = calculator_result"
    by (simp add: invoke_tool_def calculator_def calculator_request_def calculator_result_def)
  from with_calculator with_nothing whole show ?thesis
    by (simp add: question_def probe_answer_def result)
qed

text \<open>
  Claim C8. On every call of \<^verbatim>\<open>call_model\<close> the system message is the template formatted
  with the timestamp of that call; what the call returns is what the model gives on the list
  that has this system message at its head, in front of the messages of the state. The
  system message is not returned: the returned list holds no system message, and the system
  messages of the state are the same before and after the update.
\<close>

theorem system_message_not_persisted:
  "(get_tools env = Inr ts \<and> load_chat_model env (model ctx) = Inr chat \<and>
    str_format env (system_prompt ctx) (utc_now_isoformat env) = Inr sm \<longrightarrow>
      snd (call_model env ctx state) =
        (case chat ts (SystemMessage sm # messages state) of
           Inl e \<Rightarrow> Inl e
         | Inr response \<Rightarrow>
             Inr [AIMessage (if is_last_step state \<and> ai_tool_calls response \<noteq> []
                             then new_AIMessage (ai_id response) budget_notice
                             else response)]) \<and>
      InvokedModel (model ctx) ts (SystemMessage sm # messages state)
        \<in> set (fst (call_model env ctx state))) \<and>
   (\<forall>name bound input.
      InvokedModel name bound input \<in> set (fst (call_model env ctx state)) \<longrightarrow>
      (\<exists>sm. str_format env (system_prompt ctx) (utc_now_isoformat env) = Inr sm \<and>
            input = SystemMessage sm # messages state)) \<and>
   (snd (call_model env ctx state) = Inr update \<longrightarrow>
      (\<forall>m \<in> set update. \<not> isinstance_SystemMessage m) \<and>
      filter isinstance_SystemMessage (messages (apply_update state update)) =
        filter isinstance_SystemMessage (messages state))"
proof -
  have passed: "snd (call_model env ctx state) =
        (case chat ts (SystemMessage sm # messages state) of
           Inl e \<Rightarrow> Inl e
         | Inr response \<Rightarrow>
             Inr [AIMessage (if is_last_step state \<and> ai_tool_calls response \<noteq> []
                             then new_AIMessage (ai_id response) budget_notice
                             else response)]) \<and>
      InvokedModel (model ctx) ts (SystemMessage sm # messages state)
        \<in> set (fst (call_model env ctx state))"
    if h: "get_tools env = Inr ts \<and> load_chat_model env (model ctx) = Inr chat \<and>
        str_format env (system_prompt ctx) (utc_now_isoformat env) = Inr sm"
  proof
    from h show "snd (call_model env ctx state) =
        (case chat ts (SystemMessage sm # messages state) of
           Inl e \<Rightarrow> Inl e
         | Inr response \<Rightarrow>
             Inr [AIMessage (if is_last_step state \<and> ai_tool_calls response \<noteq> []
                             then new_AIMessage (ai_id response) budget_notice
                             else response)])"
      by (simp add: call_model_result)
    from h show "InvokedModel (model ctx) ts (SystemMessage sm # messages state)
        \<in> set (fst (call_model env ctx state))"
      by (simp add: call_model_def Let_def split: sum.splits)
  qed
  have input: "\<forall>name bound input.
      InvokedModel name bound input \<in> set (fst (call_model env ctx state)) \<longrightarrow>
      (\<exists>sm. str_format env (system_prompt ctx) (utc_now_isoformat env) = Inr sm \<and>
            input = SystemMessage sm # messages state)"
    using call_model_invocation by blast
  have returned: "(\<forall>m \<in> set update. \<not> isinstance_SystemMessage m) \<and>
      filter isinstance_SystemMessage (messages (apply_update state update)) =
        filter isinstance_SystemMessage (messages state)"
    if r: "snd (call_model env ctx state) = Inr update"
  proof -
    from call_model_returns [OF r] obtain a where upd: "update = [AIMessage a]"
      by blast
    then show ?thesis
      by (simp add: apply_update_def add_messages_def)
  qed
  show ?thesis
    by (rule conjI [OF impI [OF passed] conjI [OF input impI [OF returned]]])
qed

theorem system_message_not_persisted_witness:
  "snd (call_model (probing_environment [calculator]) example_context
         \<lparr>messages = question, is_last_step = False\<rparr>) =
     Inr [AIMessage (probe_answer ''System time: 2025-01-01T00:00:00+00:00 tools: calculator''
                       [calculator_request])] \<and>
   snd (call_model
          ((probing_environment [calculator])
             \<lparr>utc_now_isoformat := ''2025-01-01T00:00:05+00:00''\<rparr>)
          example_context \<lparr>messages = question, is_last_step = False\<rparr>) =
     Inr [AIMessage (probe_answer ''System time: 2025-01-01T00:00:05+00:00 tools: calculator''
                       [calculator_request])] \<and>
   \<not> isinstance_SystemMessage
       (AIMessage (probe_answer ''System time: 2025-01-01T00:00:00+00:00 tools: calculator''
                     [calculator_request])) \<and>
   filter isinstance_SystemMessage
     (messages (apply_update \<lparr>messages = question, is_last_step = False\<rparr>
        [AIMessage (probe_answer ''System time: 2025-01-01T00:00:00+00:00 tools: calculator''
                      [calculator_request])])) =
   filter isinstance_SystemMessage question"
proof -
  let ?state = "\<lparr>messages = question, is_last_step = False\<rparr>"
  let ?later = "(probing_environment [calculator])
                  \<lparr>utc_now_isoformat := ''2025-01-01T00:00:05+00:00''\<rparr>"
  let ?r = "probe_answer ''System time: 2025-01-01T00:00:00+00:00 tools: calculator''
              [calculator_request]"
  note passed = system_message_not_persisted [THEN conjunct1, rule_format, THEN conjunct1]
  note returned = system_message_not_persisted [THEN conjunct2, THEN conjunct2, rule_format]
  have first: "snd (call_model (probing_environment [calculator]) example_context ?state) =
      Inr [AIMessage ?r]"
    using passed [of "probing_environment [calculator]" "[calculator]" example_context probe
                     example_system_message ?state]
    by (simp add: probing_environment_simps probe_def question_def example_system_message_def
          calculator_def)
  have later: "snd (call_model ?later example_context ?state) =
      Inr [AIMessage (probe_answer ''System time: 2025-01-01T00:00:05+00:00 tools: calculator''
                        [calculator_request])]"
    using passed [of ?later "[calculator]" example_context probe
                     "''System time: 2025-01-01T00:00:05+00:00''" ?state]
    by (simp add: probing_environment_def example_environment_def example_context_def
          probe_def question_def calculator_def)
  from returned [of "probing_environment [calculator]" example_context ?state
                    "[AIMessage ?r]", OF first]
  have kept: "(\<forall>m \<in> set [AIMessage ?r]. \<not> isinstance_SystemMessage m) \<and>
      filter isinstance_SystemMessage (messages (apply_update ?state [AIMessage ?r])) =
        filter isinstance_SystemMessage (messages ?state)" .
  from first later kept show ?thesis
    by simp
qed

text \<open>
  Claim C9, as amended. When \<^verbatim>\<open>call_model\<close> rewrites the response under the exhausted step
  budget, the rewritten message has the identifier of the response, the fixed notice as its
  content and no tool-call request, and each of its other attributes has the default of the
  constructor. It differs from the response in content and tool-call requests only when the
  other attributes of the response were at their defaults.
\<close>

theorem call_model_rewrite_keeps_id:
  assumes "is_last_step state"
    and "get_tools env = Inr ts"
    and "load_chat_model env (model ctx) = Inr chat"
    and "str_format env (system_prompt ctx) (utc_now_isoformat env) = Inr sm"
    and "chat ts (SystemMessage sm # messages state) = Inr response"
    and "ai_tool_calls response \<noteq> []"
  shows "\<exists>m. snd (call_model env ctx state) = Inr [AIMessage m] \<and>
             ai_id m = ai_id response \<and> ai_content m = budget_notice \<and> ai_tool_calls m = [] \<and>
             ai_name m = None \<and> ai_additional_kwargs m = [] \<and>
             ai_response_metadata m = [] \<and> ai_usage_metadata m = None \<and>
             (m = response\<lparr>ai_content := budget_notice, ai_tool_calls := []\<rparr> \<longleftrightarrow>
                ai_name response = None \<and> ai_additional_kwargs response = [] \<and>
                ai_response_metadata response = [] \<and> ai_usage_metadata response = None)"
proof -
  let ?m = "new_AIMessage (ai_id response) budget_notice"
  have "snd (call_model env ctx state) = Inr [AIMessage ?m]"
    using assms by (simp add: call_model_success)
  moreover have "ai_id ?m = ai_id response \<and> ai_content ?m = budget_notice \<and>
      ai_tool_calls ?m = [] \<and> ai_name ?m = None \<and> ai_additional_kwargs ?m = [] \<and>
      ai_response_metadata ?m = [] \<and> ai_usage_metadata ?m = None"
    by (simp add: new_AIMessage_def)
  moreover have "?m = response\<lparr>ai_content := budget_notice, ai_tool_calls := []\<rparr> \<longleftrightarrow>
      ai_name response = None \<and> ai_additional_kwargs response = [] \<and>
      ai_response_metadata response = [] \<and> ai_usage_metadata response = None"
    by (cases response) (auto simp: new_AIMessage_def)
  ultimately show ?thesis by blast
qed

theorem call_model_rewrite_keeps_id_witness:
  "\<exists>m. snd (call_model (example_environment [calculator] asking) example_context
             \<lparr>messages = question, is_last_step = True\<rparr>) = Inr [AIMessage m] \<and>
       ai_id m = Some ''run-1'' \<and> ai_content m = budget_notice \<and> ai_tool_calls m = [] \<and>
       ai_response_metadata m = []"
  using call_model_rewrite_keeps_id
          [of "\<lparr>messages = question, is_last_step = True\<rparr>"
              "example_environment [calculator] asking" "[calculator]" example_context
              "\<lambda>bound input. Inr asking" example_system_message asking]
  by (auto simp: example_environment_simps asking_def)

text \<open>
  The claim as stated, that only the content and the tool-call requests differ from the
  response, fails on a response that carries response metadata: the rewritten message is
  built afresh from the identifier and the notice, and its metadata is empty.
\<close>

theorem call_model_rewrite_resets_metadata:
  "is_last_step \<lparr>messages = question, is_last_step = True\<rparr> \<and>
   ai_tool_calls asking \<noteq> [] \<and>
   snd (call_model (example_environment [calculator] asking) example_context
          \<lparr>messages = question, is_last_step = True\<rparr>) =
     Inr [AIMessage (new_AIMessage (Some ''run-1'') budget_notice)] \<and>
   ai_response_metadata (new_AIMessage (Some ''run-1'') budget_notice) \<noteq>
     ai_response_metadata asking \<and>
   new_AIMessage (Some ''run-1'') budget_notice \<noteq>
     asking\<lparr>ai_content := budget_notice, ai_tool_calls := []\<rparr>"
  by (simp add: call_model_success example_environment_simps asking_def new_AIMessage_def)

section \<open>Properties of the action node and of the run\<close>

text \<open>
  Claim C4. Neither phase shrinks the message sequence: the reasoning node adds exactly the
  one message it returns, the action node adds exactly the results it returns, and a whole
  run ends with a sequence that extends the one it started with, so its length is at least
  the length before the start.
\<close>

theorem messages_only_appended:
  "(snd (call_model env ctx state) = Inr update \<longrightarrow>
      messages (apply_update state update) = messages state @ update \<and>
      length (messages (apply_update state update)) = Suc (length (messages state))) \<and>
   (snd (dynamic_tools_node env state) = Inr results \<longrightarrow>
      messages (apply_update state results) = messages state @ results \<and>
      length (messages state) \<le> length (messages (apply_update state results))) \<and>
   (\<exists>new. snd (run envs ctx cycle n msgs) = msgs @ new) \<and>
   length msgs \<le> length (snd (run envs ctx cycle n msgs))"
proof -
  have reasoning: "messages (apply_update state update) = messages state @ update \<and>
      length (messages (apply_update state update)) = Suc (length (messages state))"
    if r: "snd (call_model env ctx state) = Inr update"
  proof -
    from call_model_returns [OF r] obtain a where "update = [AIMessage a]"
      by blast
    then show ?thesis by (simp add: apply_update_messages)
  qed
  have acting: "messages (apply_update state results) = messages state @ results \<and>
      length (messages state) \<le> length (messages (apply_update state results))"
    if "snd (dynamic_tools_node env state) = Inr results"
    by (simp add: apply_update_messages)
  obtain new where new: "snd (run envs ctx cycle n msgs) = msgs @ new"
    using run_appends by blast
  then have whole: "\<exists>new. snd (run envs ctx cycle n msgs) = msgs @ new"
    by blast
  from new have len: "length msgs \<le> length (snd (run envs ctx cycle n msgs))"
    by simp
  show ?thesis
    by (rule conjI [OF impI [OF reasoning] conjI [OF impI [OF acting] conjI [OF whole len]]])
qed

theorem messages_only_appended_witness:
  "messages (apply_update \<lparr>messages = question, is_last_step = False\<rparr> [AIMessage asking]) =
     question @ [AIMessage asking] \<and>
   messages (apply_update \<lparr>messages = question @ [AIMessage asking], is_last_step = False\<rparr>
               [ToolMessage calculator_result]) =
     (question @ [AIMessage asking]) @ [ToolMessage calculator_result] \<and>
   length question \<le> length (snd (run scenario example_context 0 5 question))"
proof -
  let ?env = "example_environment [calculator] asking"
  let ?state = "\<lparr>messages = question, is_last_step = False\<rparr>"
  let ?state1 = "\<lparr>messages = question @ [AIMessage asking], is_last_step = False\<rparr>"
  have r: "snd (call_model ?env example_context ?state) = Inr [AIMessage asking]"
    by (simp add: call_model_success example_environment_simps)
  have a: "snd (dynamic_tools_node ?env ?state1) = Inr [ToolMessage calculator_result]"
    by (simp add: dynamic_tools_node_def example_environment_simps ToolNode_assistant
          invoke_tool_def asking_def calculator_def calculator_request_def calculator_result_def)
  from messages_only_appended
         [where env = ?env and ctx = example_context and state = ?state
            and update = "[AIMessage asking]" and results = "[]" and envs = scenario
            and cycle = 0 and n = 5 and msgs = question]
       messages_only_appended
         [where env = ?env and ctx = example_context and state = ?state1
            and update = "[]" and results = "[ToolMessage calculator_result]"
            and envs = scenario and cycle = 0 and n = 5 and msgs = question]
       r a
  show ?thesis by simp
qed

text \<open>
  Claim C5. For the tool-call requests of the last assistant message the action node returns
  exactly one Tool Result message per request, in the order of the requests and each with
  the identifier of its request; a request whose tool fails, or names no tool of the set,
  still has its Tool Result message, marked as an error.
\<close>

theorem tool_results_match_requests:
  assumes "messages state = earlier @ [AIMessage a]"
    and "get_tools env = Inr ts"
  shows "\<exists>results.
           snd (dynamic_tools_node env state) = Inr (map ToolMessage results) \<and>
           length results = length (ai_tool_calls a) \<and>
           map tm_tool_call_id results = map tc_id (ai_tool_calls a) \<and>
           (\<forall>i t why. i < length results \<and>
              find (\<lambda>t. tool_name t = tc_name (ai_tool_calls a ! i)) ts = Some t \<and>
              tool_handle t (tc_args (ai_tool_calls a ! i)) = Failure why \<longrightarrow>
              tm_status (results ! i) = Error \<and> tm_content (results ! i) = why) \<and>
           (\<forall>i. i < length results \<and>
              find (\<lambda>t. tool_name t = tc_name (ai_tool_calls a ! i)) ts = None \<longrightarrow>
              tm_status (results ! i) = Error)"
proof -
  let ?results = "map (invoke_tool ts) (ai_tool_calls a)"
  have "snd (dynamic_tools_node env state) = Inr (map ToolMessage ?results)"
    using assms by (simp add: dynamic_tools_node_def ToolNode_assistant)
  moreover have "length ?results = length (ai_tool_calls a)"
    by simp
  moreover have "map tm_tool_call_id ?results = map tc_id (ai_tool_calls a)"
    by (simp add: invoke_tool_call_id)
  moreover have "\<forall>i t why. i < length ?results \<and>
              find (\<lambda>t. tool_name t = tc_name (ai_tool_calls a ! i)) ts = Some t \<and>
              tool_handle t (tc_args (ai_tool_calls a ! i)) = Failure why \<longrightarrow>
              tm_status (?results ! i) = Error \<and> tm_content (?results ! i) = why"
    by (simp add: invoke_tool_failure)
  moreover have "\<forall>i. i < length ?results \<and>
              find (\<lambda>t. tool_name t = tc_name (ai_tool_calls a ! i)) ts = None \<longrightarrow>
              tm_status (?results ! i) = Error"
    by (simp add: invoke_tool_unknown)
  ultimately show ?thesis by blast
qed

theorem tool_results_match_requests_witness:
  "\<exists>results.
     snd (dynamic_tools_node (example_environment [calculator] asking_twice)
            \<lparr>messages = question @ [AIMessage asking_twice], is_last_step = False\<rparr>) =
       Inr (map ToolMessage results) \<and>
     length results = 2 \<and>
     map tm_tool_call_id results = [''call_1'', ''call_2''] \<and>
     tm_status (results ! 1) = Error \<and> tm_content (results ! 1) = ''cannot evaluate''"
proof -
  let ?state = "\<lparr>messages = question @ [AIMessage asking_twice], is_last_step = False\<rparr>"
  let ?env = "example_environment [calculator] asking_twice"
  have h1: "messages ?state = question @ [AIMessage asking_twice]"
    by simp
  have h2: "get_tools ?env = Inr [calculator]"
    by (simp add: example_environment_simps)
  have calls: "ai_tool_calls asking_twice = [calculator_request, failing_request]"
    by (simp add: asking_twice_def)
  have found: "find (\<lambda>t. tool_name t = tc_name ([calculator_request, failing_request] ! 1))
                 [calculator] = Some calculator"
    by (simp add: calculator_def failing_request_def)
  have fails: "tool_handle calculator (tc_args ([calculator_request, failing_request] ! 1)) =
                 Failure ''cannot evaluate''"
    by (simp add: calculator_def failing_request_def)
  from tool_results_match_requests [OF h1 h2] obtain results where
    all: "snd (dynamic_tools_node ?env ?state) = Inr (map ToolMessage results) \<and>
          length results = length (ai_tool_calls asking_twice) \<and>
          map tm_tool_call_id results = map tc_id (ai_tool_calls asking_twice) \<and>
          (\<forall>i t why. i < length results \<and>
              find (\<lambda>t. tool_name t = tc_name (ai_tool_calls asking_twice ! i)) [calculator] = Some t \<and>
              tool_handle t (tc_args (ai_tool_calls asking_twice ! i)) = Failure why \<longrightarrow>
              tm_status (results ! i) = Error \<and> tm_content (results ! i) = why) \<and>
          (\<forall>i. i < length results \<and>
              find (\<lambda>t. tool_name t = tc_name (ai_tool_calls asking_twice ! i)) [calculator] = None \<longrightarrow>
              tm_status (results ! i) = Error)"
    ..
  note r = all [THEN conjunct1]
  note l = all [THEN conjunct2, THEN conjunct1]
  note ids = all [THEN conjunct2, THEN conjunct2, THEN conjunct1]
  note failure = all [THEN conjunct2, THEN conjunct2, THEN conjunct2, THEN conjunct1]
  from l have l2: "length results = 2"
    by (simp add: calls)
  from ids have ids2: "map tm_tool_call_id results = [''call_1'', ''call_2'']"
    by (simp add: calls calculator_request_def failing_request_def)
  have one: "(1::nat) < length results"
    by (simp add: l2)
  from failure [unfolded calls, rule_format, of 1 calculator "''cannot evaluate''",
                OF conjI [OF one conjI [OF found fails]]]
  have status: "tm_status (results ! 1) = Error \<and> tm_content (results ! 1) = ''cannot evaluate''" .
  show ?thesis
    by (rule exI [of _ results]) (rule conjI [OF r conjI [OF l2 conjI [OF ids2 status]]])
qed

end
